theory Spec2Isabelle
  imports Complex_Main "HOL-Library.Word" "HOL-Library.Sublist"
begin

section \<open>The dataset lifecycle of get\_datasets.py\<close>

text \<open>
  The module downloads a catalogue of datasets, checks the SHA-256 digest of every fresh
  download and hands the raw file to a per-dataset processing function. The embedding
  makes the things the Python code touches explicit: the file system, the remote servers,
  the printed lines and the module-global variable \<open>dataset\<close> that the main loop binds.
\<close>

subsection \<open>Files, responses, events\<close>

type_synonym byte = "8 word"
type_synonym bytes = "byte list"

text \<open>A resolved absolute path is the list of its components; the root is the empty list.\<close>

type_synonym path = "string list"

datatype node = File bytes | Dir

type_synonym filesystem = "path \<Rightarrow> node option"

text \<open>
  The exceptions the code can raise; \<open>exit(1)\<close> raises \<open>SystemExit 1\<close>. The last four
  come from the processing functions.
\<close>

datatype exn =
    NameError
  | FileExistsError
  | FileNotFoundError
  | NotADirectoryError
  | IsADirectoryError
  | ConnectionError
  | ChunkedEncodingError
  | TypeError
  | ValueError
  | SystemExit int
  | KeyError
  | EmptyDataError
  | ParserError
  | ProcessingError string

text \<open>
  What \<open>requests.get(url, stream=True)\<close> returns: the header lookup of the response,
  the chunks \<open>iter_content\<close> yields, and whether the stream breaks after the last of them.
\<close>

record response =
  headers :: "string \<Rightarrow> string option"
  chunks :: "bytes list"
  broken :: bool

text \<open>
  The history of a run. \<open>Print\<close> and \<open>HttpGet\<close> are effects of the code;
  \<open>FileWrite\<close>, \<open>DigestChecked\<close> and \<open>Transform\<close> record that the raw file was opened
  for writing, that its digest was compared with the expected one (and the verdict), and
  that the processing function was called.
\<close>

datatype event =
    Print string
  | HttpGet string
  | FileWrite path
  | DigestChecked path bool
  | Transform path path

text \<open>
  The world is everything outside the module: the file system, the servers, the history,
  and the two library calls of \<open>download_file\<close> whose outcome depends on the interpreter
  and the library at hand: what the builtin \<open>int\<close> makes of a header string (\<open>None\<close> stands
  for its \<open>ValueError\<close>), and the exception, if any, that constructing the \<open>tqdm\<close>
  progress bar with a given total and description raises. Updating and closing the bar
  only draw it.
\<close>

record world =
  fs :: filesystem
  net :: "string \<Rightarrow> response option"
  trace :: "event list"
  builtin_int :: "string \<Rightarrow> int option"
  tqdm_new :: "int \<Rightarrow> string \<Rightarrow> exn option"

record Dataset =
  name :: string
  url :: string
  hash :: string
  raw_file_path :: path
  clean_file_path :: path
  processing_function :: "path \<Rightarrow> path \<Rightarrow> world \<Rightarrow> exn option \<times> world"

definition emit :: "event \<Rightarrow> world \<Rightarrow> world" where
  "emit e w = w\<lparr>trace := trace w @ [e]\<rparr>"

definition py_print :: "string \<Rightarrow> world \<Rightarrow> world" where
  "py_print s = emit (Print s)"

subsection \<open>pathlib and open\<close>

text \<open>\<open>Path.exists()\<close>: the root always exists.\<close>

definition node_at :: "filesystem \<Rightarrow> path \<Rightarrow> node option" where
  "node_at f p = (if p = [] then Some Dir else f p)"

definition path_exists :: "filesystem \<Rightarrow> path \<Rightarrow> bool" where
  "path_exists f p = (node_at f p \<noteq> None)"

definition parent :: "path \<Rightarrow> path" where
  "parent p = butlast p"

text \<open>
  \<open>Path.mkdir(exist_ok=True, parents=True)\<close>, walking from the root down the components
  still to be created: an existing directory is kept, a missing one is created, a regular
  file in the way raises (\<open>FileExistsError\<close> when it is the target itself,
  \<open>NotADirectoryError\<close> when it is one of its ancestors).
\<close>

fun mkdir_from :: "path \<Rightarrow> path \<Rightarrow> filesystem \<Rightarrow> exn + filesystem" where
  "mkdir_from pre [] f = Inr f"
| "mkdir_from pre (c # cs) f =
     (case node_at f (pre @ [c]) of
        Some (File b) \<Rightarrow> Inl (if cs = [] then FileExistsError else NotADirectoryError)
      | Some Dir \<Rightarrow> mkdir_from (pre @ [c]) cs f
      | None \<Rightarrow> mkdir_from (pre @ [c]) cs (f(pre @ [c] \<mapsto> Dir)))"

definition mkdir_parents :: "path \<Rightarrow> filesystem \<Rightarrow> exn + filesystem" where
  "mkdir_parents p f = mkdir_from [] p f"

text \<open>\<open>open(p, "wb")\<close>: the file is created or truncated.\<close>

definition open_wb :: "path \<Rightarrow> filesystem \<Rightarrow> exn + filesystem" where
  "open_wb p f =
     (case node_at f p of
        Some Dir \<Rightarrow> Inl IsADirectoryError
      | _ \<Rightarrow> (case node_at f (parent p) of
                None \<Rightarrow> Inl FileNotFoundError
              | Some (File b) \<Rightarrow> Inl NotADirectoryError
              | Some Dir \<Rightarrow> Inr (f(p \<mapsto> File []))))"

text \<open>\<open>f.write(chunk)\<close> on the open file.\<close>

definition append_file :: "path \<Rightarrow> bytes \<Rightarrow> filesystem \<Rightarrow> filesystem" where
  "append_file p b f =
     (case f p of Some (File old) \<Rightarrow> f(p \<mapsto> File (old @ b)) | _ \<Rightarrow> f)"

text \<open>The loop over \<open>r.iter_content(chunk_size=1024)\<close>; empty chunks are skipped.\<close>

fun write_chunks :: "path \<Rightarrow> bytes list \<Rightarrow> filesystem \<Rightarrow> filesystem" where
  "write_chunks p [] f = f"
| "write_chunks p (chunk # rest) f =
     (if chunk \<noteq> [] then write_chunks p rest (append_file p chunk f)
      else write_chunks p rest f)"

subsection \<open>The methods of Dataset\<close>

text \<open>
  Every method takes the hash function \<open>sha256\<close> (\<open>hashlib.sha256(...).hexdigest()\<close>)
  and the binding of the module-global variable \<open>dataset\<close> (\<open>None\<close> when unbound, where
  reading it raises \<open>NameError\<close>), in front of the receiver \<open>self\<close>.
\<close>

definition hash_diagnostic :: "string \<Rightarrow> string" where
  "hash_diagnostic u =
     ''The file hosted as '' @ u @ '' has an unexpected hash.'' @ [CHR ''\<newline>''] @
     ''Please manually check if the processing is still correct''"

text \<open>\<open>u.split("/")[-1]\<close>: what follows the last slash.\<close>

definition last_segment :: "string \<Rightarrow> string" where
  "last_segment u = rev (takeWhile (\<lambda>c. c \<noteq> CHR ''/'') (rev u))"

definition check_hash ::
  "(bytes \<Rightarrow> string) \<Rightarrow> Dataset option \<Rightarrow> Dataset \<Rightarrow> world \<Rightarrow> exn option \<times> world" where
  "check_hash sha256 glob self w =
     (case node_at (fs w) (raw_file_path self) of
        None \<Rightarrow> (Some FileNotFoundError, w)
      | Some Dir \<Rightarrow> (Some IsADirectoryError, w)
      | Some (File b) \<Rightarrow>
          (let file_hash = sha256 b;
               w1 = emit (DigestChecked (raw_file_path self) (file_hash = hash self)) w
           in if file_hash \<noteq> hash self then
                (case glob of
                   None \<Rightarrow> (Some NameError, w1)
                 | Some g \<Rightarrow> (Some (SystemExit 1), py_print (hash_diagnostic (url g)) w1))
              else (None, w1)))"

definition download_file ::
  "(bytes \<Rightarrow> string) \<Rightarrow> Dataset option \<Rightarrow> Dataset \<Rightarrow> world \<Rightarrow> exn option \<times> world" where
  "download_file sha256 glob self w =
     (case mkdir_parents (parent (raw_file_path self)) (fs w) of
        Inl e \<Rightarrow> (Some e, w)
      | Inr f1 \<Rightarrow>
          (let w1 = emit (HttpGet (url self)) (w\<lparr>fs := f1\<rparr>) in
           case net w (url self) of
             None \<Rightarrow> (Some ConnectionError, w1)
           | Some r \<Rightarrow>
               (case headers r ''Content-Length'' of
                  None \<Rightarrow> (Some TypeError, w1)
                | Some v \<Rightarrow>
                    (case builtin_int w v of
                       None \<Rightarrow> (Some ValueError, w1)
                     | Some file_size \<Rightarrow>
                         (case tqdm_new w file_size (last_segment (url self)) of
                            Some e \<Rightarrow> (Some e, w1)
                          | None \<Rightarrow>
                              (case open_wb (raw_file_path self) (fs w1) of
                                 Inl e \<Rightarrow> (Some e, w1)
                               | Inr f2 \<Rightarrow>
                                   (let w2 = emit (FileWrite (raw_file_path self))
                                               (w1\<lparr>fs := write_chunks (raw_file_path self)
                                                              (chunks r) f2\<rparr>)
                                    in if broken r then (Some ChunkedEncodingError, w2)
                                       else check_hash sha256 glob self w2)))))))"

definition missing_notice :: "string \<Rightarrow> string" where
  "missing_notice n = ''Source file for '' @ n @ '' is missing, downloading it''"

definition verify_downloaded ::
  "(bytes \<Rightarrow> string) \<Rightarrow> Dataset option \<Rightarrow> Dataset \<Rightarrow> world \<Rightarrow> exn option \<times> world" where
  "verify_downloaded sha256 glob self w =
     (case glob of
        None \<Rightarrow> (Some NameError, w)
      | Some g \<Rightarrow>
          if \<not> path_exists (fs w) (raw_file_path g) then
            download_file sha256 glob self (py_print (missing_notice (name g)) w)
          else (None, w))"

definition process ::
  "(bytes \<Rightarrow> string) \<Rightarrow> Dataset option \<Rightarrow> Dataset \<Rightarrow> world \<Rightarrow> exn option \<times> world" where
  "process sha256 glob self w =
     (case verify_downloaded sha256 glob self w of
        (Some e, w1) \<Rightarrow> (Some e, w1)
      | (None, w1) \<Rightarrow>
          processing_function self (raw_file_path self) (clean_file_path self)
            (emit (Transform (raw_file_path self) (clean_file_path self)) w1))"

subsection \<open>The main loop\<close>

definition gathering_notice :: "string \<Rightarrow> string" where
  "gathering_notice n =
     [CHR ''\<newline>'', CHR 0x1B] @ ''[1;36mGathering '' @ n @ [CHR 0x1B] @ ''[0m''"

text \<open>
  \<open>for dataset in datasets: print(...); dataset.process()\<close>: each round binds the global
  \<open>dataset\<close> to the current record; an exception ends the run.
\<close>

fun main_loop :: "(bytes \<Rightarrow> string) \<Rightarrow> Dataset list \<Rightarrow> world \<Rightarrow> exn option \<times> world" where
  "main_loop sha256 [] w = (None, w)"
| "main_loop sha256 (d # ds) w =
     (case process sha256 (Some d) d (py_print (gathering_notice (name d)) w) of
        (Some e, w1) \<Rightarrow> (Some e, w1)
      | (None, w1) \<Rightarrow> main_loop sha256 ds w1)"

subsection \<open>Notions used to state the properties\<close>

text \<open>Whether \<open>s\<close> occurs in \<open>t\<close> as a contiguous piece: a message names what it contains.\<close>

fun contains_str :: "string \<Rightarrow> string \<Rightarrow> bool" where
  "contains_str s [] = (s = [])"
| "contains_str s (c # cs) = (prefix s (c # cs) \<or> contains_str s cs)"

text \<open>The events a step added to the history.\<close>

definition new_events :: "world \<Rightarrow> world \<Rightarrow> event list" where
  "new_events w w' = drop (length (trace w)) (trace w')"

text \<open>Network requests among the events.\<close>

definition is_request :: "event \<Rightarrow> bool" where
  "is_request e = (case e of HttpGet u \<Rightarrow> True | _ \<Rightarrow> False)"

text \<open>
  The integrity checker as the specification words it: \<open>digest_of\<close> hashes the bytes of
  a file, \<open>matches\<close> compares that digest with an expected value.
\<close>

definition digest_of :: "(bytes \<Rightarrow> string) \<Rightarrow> filesystem \<Rightarrow> path \<Rightarrow> string option" where
  "digest_of sha256 f p = (case node_at f p of Some (File b) \<Rightarrow> Some (sha256 b) | _ \<Rightarrow> None)"

definition matches :: "(bytes \<Rightarrow> string) \<Rightarrow> filesystem \<Rightarrow> path \<Rightarrow> string \<Rightarrow> bool" where
  "matches sha256 f p expected = (digest_of sha256 f p = Some expected)"

text \<open>
  The world \<open>download_file\<close> reaches when the request succeeded and the whole body was
  written, just before it calls \<open>check_hash\<close>.
\<close>

definition downloaded :: "Dataset \<Rightarrow> response \<Rightarrow> filesystem \<Rightarrow> world \<Rightarrow> world" where
  "downloaded d r f1 w =
     emit (FileWrite (raw_file_path d))
       ((emit (HttpGet (url d)) (w\<lparr>fs := f1\<rparr>))
          \<lparr>fs := write_chunks (raw_file_path d) (chunks r) (f1(raw_file_path d \<mapsto> File []))\<rparr>)"

subsection \<open>A catalogue entry to run the model on\<close>

text \<open>
  The \<open>happiness\<close> entry of the catalogue, with \<open>../data\<close> resolved to \<open>/data\<close>. Its
  processing function here copies the raw bytes to the clean path; the hash function is
  a stand-in that tells one payload from all others, the stand-in for \<open>int\<close> reads the one
  header value the sample responses carry, and the progress bar never raises.
\<close>

definition copy_processing :: "path \<Rightarrow> path \<Rightarrow> world \<Rightarrow> exn option \<times> world" where
  "copy_processing input_file output_file w =
     (case node_at (fs w) input_file of
        Some (File b) \<Rightarrow> (None, w\<lparr>fs := (fs w)(output_file \<mapsto> File b)\<rparr>)
      | _ \<Rightarrow> (Some (ProcessingError ''unreadable''), w))"

definition happiness_hash :: string where
  "happiness_hash = ''1feffca7dd0b9455b4bb16a72c3c5b33ddd78d8a13ea2c7578894481acb5c538''"

definition happiness_url :: string where
  "happiness_url =
     ''https://archive.ics.uci.edu/ml/machine-learning-databases/00479/SomervilleHappinessSurvey2015.csv''"

definition happiness_raw :: path where
  "happiness_raw = [''data'', ''happiness'', ''raw'', ''SomervilleHappinessSurvey2015.csv'']"

definition happiness_clean :: path where
  "happiness_clean = [''data'', ''happiness'', ''happiness.csv'']"

definition happiness :: Dataset where
  "happiness = \<lparr>name = ''happiness'', url = happiness_url, hash = happiness_hash,
     raw_file_path = happiness_raw, clean_file_path = happiness_clean,
     processing_function = copy_processing\<rparr>"

definition toy_sha256 :: "bytes \<Rightarrow> string" where
  "toy_sha256 b = (if b = [1, 2, 3] then happiness_hash else ''0000'')"

definition good_response :: response where
  "good_response = \<lparr>headers = [''Content-Length'' \<mapsto> ''3''], chunks = [[1, 2], [], [3]],
     broken = False\<rparr>"

definition bad_response :: response where
  "bad_response = \<lparr>headers = [''Content-Length'' \<mapsto> ''3''], chunks = [[1, 2], [7]],
     broken = False\<rparr>"

definition bare_response :: response where
  "bare_response = \<lparr>headers = Map.empty, chunks = [[1, 2, 3]], broken = False\<rparr>"

definition sample_int :: "string \<Rightarrow> int option" where
  "sample_int v = (if v = ''3'' then Some 3 else None)"

definition quiet_tqdm :: "int \<Rightarrow> string \<Rightarrow> exn option" where
  "quiet_tqdm n desc = None"

definition serving :: "response \<Rightarrow> string \<Rightarrow> response option" where
  "serving r u = (if u = happiness_url then Some r else None)"

definition empty_world :: "response \<Rightarrow> world" where
  "empty_world r = \<lparr>fs = Map.empty, net = serving r, trace = [],
     builtin_int = sample_int, tqdm_new = quiet_tqdm\<rparr>"

definition stale_world :: world where
  "stale_world = \<lparr>fs = [happiness_raw \<mapsto> File [9]], net = serving good_response,
     trace = [], builtin_int = sample_int, tqdm_new = quiet_tqdm\<rparr>"

text \<open>A second entry, and a world in which its raw file is already on disk.\<close>

definition banknote_raw :: path where
  "banknote_raw = [''data'', ''banknote'', ''raw'', ''data_banknote_authentication.txt'']"

definition banknote_url :: string where
  "banknote_url =
     ''https://archive.ics.uci.edu/ml/machine-learning-databases/00267/data_banknote_authentication.txt''"

definition banknote :: Dataset where
  "banknote = \<lparr>name = ''banknote'', url = banknote_url,
     hash = ''d0539aaed2139ba7a587b3e34fb345ce503ff7d5d33dbf9912d8e195ce425cb9'',
     raw_file_path = banknote_raw, clean_file_path = [''data'', ''banknote'', ''banknote.csv''],
     processing_function = copy_processing\<rparr>"

definition mixed_world :: world where
  "mixed_world = \<lparr>fs = [[''data''] \<mapsto> Dir, [''data'', ''banknote''] \<mapsto> Dir,
       [''data'', ''banknote'', ''raw''] \<mapsto> Dir, banknote_raw \<mapsto> File [5]],
     net = (\<lambda>u. Some good_response), trace = [],
     builtin_int = sample_int, tqdm_new = quiet_tqdm\<rparr>"

section \<open>The transformation routine of the banknote dataset\<close>

text \<open>
  \<open>process_banknote\<close> reads the raw file with \<open>pd.read_csv(input_file, index_col=None)\<close>,
  renames the five columns, derives the label from the class column, scales the four
  remaining columns with \<open>MinMaxScaler\<close> and appends the label as column \<open>y\<close>. The raw file
  \<open>data_banknote_authentication.txt\<close> is comma-separated numbers, one record per line, with no
  header line; it is given here as the list of its records, each the list of the numbers of
  one line, in the order of the file. Numbers are rationals, so the arithmetic of the scaler
  is exact here where the code computes in double precision.

  A column label is a name given by the code, or the text of a field of the line that the
  reader took as the header. A frame is its number of rows and its labelled columns, in order.
\<close>

datatype label = Name string | Field rat

record DataFrame =
  nrows :: nat
  cols :: "(label \<times> rat list) list"

text \<open>
  \<open>pd.read_csv\<close> with its default \<open>header='infer'\<close> and no \<open>names\<close>: the first line gives the column
  labels and the lines after it are the rows; an empty file raises \<open>EmptyDataError\<close>. What the
  reader does with lines of unequal length is outside this model: the result is \<open>None\<close> there.
\<close>

definition rectangular :: "rat list list \<Rightarrow> bool" where
  "rectangular records = list_all (\<lambda>r. length r = length (hd records)) records"

definition read_csv :: "rat list list \<Rightarrow> (exn + DataFrame) option" where
  "read_csv records =
     (if \<not> rectangular records then None
      else case records of
             [] \<Rightarrow> Some (Inl EmptyDataError)
           | header # rest \<Rightarrow>
               Some (Inr \<lparr>nrows = length rest,
                          cols = map (\<lambda>j. (Field (header ! j), map (\<lambda>r. r ! j) rest))
                                   [0..<length header]\<rparr>))"

text \<open>
  \<open>df.columns = names\<close> raises \<open>ValueError\<close> on a length mismatch; \<open>df[l]\<close> and \<open>df.drop\<close> raise
  \<open>KeyError\<close> on a missing label.
\<close>

definition set_columns :: "string list \<Rightarrow> DataFrame \<Rightarrow> exn + DataFrame" where
  "set_columns names df =
     (if length names \<noteq> length (cols df) then Inl ValueError
      else Inr (df\<lparr>cols := zip (map Name names) (map snd (cols df))\<rparr>))"

definition column :: "DataFrame \<Rightarrow> label \<Rightarrow> exn + rat list" where
  "column df l = (case map_of (cols df) l of None \<Rightarrow> Inl KeyError | Some c \<Rightarrow> Inr c)"

definition drop_columns :: "label list \<Rightarrow> DataFrame \<Rightarrow> exn + DataFrame" where
  "drop_columns ls df =
     (if list_ex (\<lambda>l. l \<notin> set (map fst (cols df))) ls then Inl KeyError
      else Inr (df\<lparr>cols := filter (\<lambda>c. fst c \<notin> set ls) (cols df)\<rparr>))"

text \<open>
  \<open>pd.get_dummies\<close> encodes the columns of strings and leaves numeric columns as they are; the
  columns of this model are all numeric.
\<close>

definition get_dummies :: "DataFrame \<Rightarrow> DataFrame" where
  "get_dummies df = df"

text \<open>
  \<open>MinMaxScaler().fit_transform\<close>: per column, \<open>data_range = data_max - data_min\<close>, a zero range
  is replaced by one, \<open>scale = 1 / data_range\<close>, \<open>min_ = 0 - data_min * scale\<close>, and every value
  \<open>v\<close> becomes \<open>v * scale + min_\<close>. An input without rows or without columns raises \<open>ValueError\<close>.
\<close>

definition scale_column :: "rat list \<Rightarrow> rat list" where
  "scale_column c =
     (case c of
        [] \<Rightarrow> []
      | q # qs \<Rightarrow>
          (let data_min = fold min qs q; data_max = fold max qs q;
               data_range = data_max - data_min;
               scale = 1 / (if data_range = 0 then 1 else data_range);
               shift = 0 - data_min * scale
           in map (\<lambda>v. v * scale + shift) c))"

definition fit_transform :: "DataFrame \<Rightarrow> exn + rat list list" where
  "fit_transform df =
     (if nrows df = 0 \<or> cols df = [] then Inl ValueError
      else Inr (map (\<lambda>c. scale_column (snd c)) (cols df)))"

text \<open>
  \<open>pd.DataFrame(data=X, columns=column_names)\<close> and \<open>X[l] = c\<close>, which replaces the column
  labelled \<open>l\<close> or, when there is none, appends it as the last column.
\<close>

definition data_frame :: "nat \<Rightarrow> rat list list \<Rightarrow> label list \<Rightarrow> exn + DataFrame" where
  "data_frame n columns_data column_names =
     (if length columns_data \<noteq> length column_names then Inl ValueError
      else Inr \<lparr>nrows = n, cols = zip column_names columns_data\<rparr>)"

definition set_column :: "label \<Rightarrow> rat list \<Rightarrow> DataFrame \<Rightarrow> DataFrame" where
  "set_column l c df =
     (if l \<in> set (map fst (cols df))
      then df\<lparr>cols := map (\<lambda>lc. if fst lc = l then (l, c) else lc) (cols df)\<rparr>
      else df\<lparr>cols := cols df @ [(l, c)]\<rparr>)"

text \<open>
  The routine, up to the frame that \<open>X.to_csv(output_file, sep=";", index=None)\<close> then writes
  with a header line and one line per row.
\<close>

definition banknote_columns :: "string list" where
  "banknote_columns = [''variance'', ''skewness'', ''curtosis'', ''entropy'', ''class'']"

definition process_banknote :: "rat list list \<Rightarrow> (exn + DataFrame) option" where
  "process_banknote records =
     (case read_csv records of
        None \<Rightarrow> None
      | Some (Inl e) \<Rightarrow> Some (Inl e)
      | Some (Inr df0) \<Rightarrow>
          Some (case set_columns banknote_columns df0 of
                  Inl e \<Rightarrow> Inl e
                | Inr df \<Rightarrow>
                    (case column df (Name ''class'') of
                       Inl e \<Rightarrow> Inl e
                     | Inr cls \<Rightarrow>
                         (let y = map (\<lambda>v. if v = 1 then 1 else 0) cls in
                          case drop_columns [Name ''class''] df of
                            Inl e \<Rightarrow> Inl e
                          | Inr X0 \<Rightarrow>
                              (let X1 = get_dummies X0; column_names = map fst (cols X1) in
                               case fit_transform X1 of
                                 Inl e \<Rightarrow> Inl e
                               | Inr X2 \<Rightarrow>
                                   (case data_frame (nrows X1) X2 column_names of
                                      Inl e \<Rightarrow> Inl e
                                    | Inr X \<Rightarrow> Inr (set_column (Name ''y'') y X)))))))"

text \<open>
  Two small raw files in the format of the banknote file: four measurements and the class.
\<close>

definition two_notes :: "rat list list" where
  "two_notes = [[3, 8, - 2, 0, 0],
                [4, 8, - 3, - 1, 0]]"

definition three_notes :: "rat list list" where
  "three_notes = [[- 1, 3, - 2, - 2, 1],
                  [3, 8, - 2, 0, 0],
                  [5, 6, - 3, - 1, 1]]"

section \<open>Properties of the lifecycle\<close>

subsection \<open>Auxiliary facts about the file system and the download\<close>


lemma node_at_upd_other: "q \<noteq> p \<Longrightarrow> node_at (f(p \<mapsto> v)) q = node_at f q"
  by (simp add: node_at_def)

lemma mkdir_from_frame:
  "mkdir_from pre cs f = Inr f' \<Longrightarrow>
   f' q = f q \<or> (node_at f q = None \<and> f' q = Some Dir \<and> strict_prefix pre q \<and> prefix q (pre @ cs))"
proof (induction cs arbitrary: pre f)
  case Nil
  then show ?case by simp
next
  case (Cons c cs)
  show ?case
  proof (cases "node_at f (pre @ [c])")
    case None
    with Cons.prems have m: "mkdir_from (pre @ [c]) cs (f(pre @ [c] \<mapsto> Dir)) = Inr f'" by simp
    from Cons.IH [OF m] show ?thesis
    proof
      assume e: "f' q = (f(pre @ [c] \<mapsto> Dir)) q"
      show ?thesis
      proof (cases "q = pre @ [c]")
        case True
        with e None show ?thesis by (auto simp: strict_prefix_def)
      next
        case False
        with e show ?thesis by simp
      qed
    next
      assume a: "node_at (f(pre @ [c] \<mapsto> Dir)) q = None \<and> f' q = Some Dir \<and>
        strict_prefix (pre @ [c]) q \<and> prefix q ((pre @ [c]) @ cs)"
      then have "q \<noteq> pre @ [c]" by auto
      with a have "node_at f q = None" by (simp add: node_at_def split: if_splits)
      moreover from a have "strict_prefix pre q"
        by (meson prefix_order.dual_order.strict_trans prefix_snoc strict_prefixI' strict_prefix_def append_prefixD prefix_order.le_less_trans prefixI)
      ultimately show ?thesis using a by simp
    qed
  next
    case (Some n)
    show ?thesis
    proof (cases n)
      case (File b)
      with Some Cons.prems show ?thesis by simp
    next
      case Dir
      with Some Cons.prems have m: "mkdir_from (pre @ [c]) cs f = Inr f'" by simp
      from Cons.IH [OF m] show ?thesis
      proof
        assume "f' q = f q" then show ?thesis by simp
      next
        assume a: "node_at f q = None \<and> f' q = Some Dir \<and>
          strict_prefix (pre @ [c]) q \<and> prefix q ((pre @ [c]) @ cs)"
        then have "strict_prefix pre q"
          by (meson append_prefixD prefix_order.le_less_trans prefixI strict_prefix_def prefix_order.less_imp_le)
        with a show ?thesis by simp
      qed
    qed
  qed
qed

lemma mkdir_from_target:
  "mkdir_from pre cs f = Inr f' \<Longrightarrow> node_at f pre = Some Dir \<Longrightarrow> node_at f' (pre @ cs) = Some Dir"
proof (induction cs arbitrary: pre f)
  case Nil
  then show ?case by simp
next
  case (Cons c cs)
  show ?case
  proof (cases "node_at f (pre @ [c])")
    case None
    with Cons.prems have m: "mkdir_from (pre @ [c]) cs (f(pre @ [c] \<mapsto> Dir)) = Inr f'" by simp
    have "node_at (f(pre @ [c] \<mapsto> Dir)) (pre @ [c]) = Some Dir" by (simp add: node_at_def)
    from Cons.IH [OF m this] show ?thesis by simp
  next
    case (Some n)
    with Cons.prems have "n = Dir" by (cases n) auto
    with Some Cons.prems have m: "mkdir_from (pre @ [c]) cs f = Inr f'" by simp
    from Cons.IH [OF m] Some \<open>n = Dir\<close> show ?thesis by simp
  qed
qed

lemma mkdir_parents_target:
  "mkdir_parents p f = Inr f' \<Longrightarrow> node_at f' p = Some Dir"
  unfolding mkdir_parents_def using mkdir_from_target [of "[]" p f f']
  by (simp add: node_at_def)

lemma mkdir_parents_frame:
  "mkdir_parents p f = Inr f' \<Longrightarrow> \<not> prefix q p \<Longrightarrow> f' q = f q"
  unfolding mkdir_parents_def using mkdir_from_frame [of "[]" p f f' q] by auto

lemma mkdir_parents_keeps:
  "mkdir_parents p f = Inr f' \<Longrightarrow> node_at f q \<noteq> None \<Longrightarrow> f' q = f q"
  unfolding mkdir_parents_def using mkdir_from_frame [of "[]" p f f' q] by auto

lemma append_file_other: "q \<noteq> p \<Longrightarrow> append_file p b f q = f q"
  by (simp add: append_file_def split: option.splits node.splits)

lemma write_chunks_other: "q \<noteq> p \<Longrightarrow> write_chunks p cs f q = f q"
  by (induction cs arbitrary: f) (simp_all add: append_file_other)

lemma write_chunks_file:
  "f p = Some (File old) \<Longrightarrow> write_chunks p cs f p = Some (File (old @ concat cs))"
  by (induction cs arbitrary: f old) (simp_all add: append_file_def)

lemma open_wb_fresh:
  assumes "node_at f p = None" "node_at f (parent p) = Some Dir"
  shows "open_wb p f = Inr (f(p \<mapsto> File []))"
  using assms by (simp add: open_wb_def)

lemma parent_prefix: "p \<noteq> [] \<Longrightarrow> \<not> prefix p (parent p)"
  unfolding parent_def
  by (metis append_butlast_last_id prefix_order.dual_order.antisym prefix_snoc prefixI self_append_conv not_Cons_self2 prefix_order.order_refl snoc_eq_iff_butlast)

lemma contains_str_self: "contains_str s (s @ suf)"
proof (cases "s @ suf")
  case Nil
  then show ?thesis by simp
next
  case (Cons a list)
  have "prefix s (s @ suf)" by simp
  with Cons show ?thesis by simp
qed

lemma contains_str_append: "contains_str s (pre @ s @ suf)"
  by (induction pre) (simp_all add: contains_str_self)

lemma fs_emit [simp]: "fs (emit e w) = fs w" and net_emit [simp]: "net (emit e w) = net w"
  and trace_emit [simp]: "trace (emit e w) = trace w @ [e]"
  and int_emit [simp]: "builtin_int (emit e w) = builtin_int w"
  and tqdm_emit [simp]: "tqdm_new (emit e w) = tqdm_new w"
  by (simp_all add: emit_def)

lemma fs_print [simp]: "fs (py_print s w) = fs w" and net_print [simp]: "net (py_print s w) = net w"
  and trace_print [simp]: "trace (py_print s w) = trace w @ [Print s]"
  and int_print [simp]: "builtin_int (py_print s w) = builtin_int w"
  and tqdm_print [simp]: "tqdm_new (py_print s w) = tqdm_new w"
  by (simp_all add: py_print_def)

lemma check_hash_None:
  "check_hash H g d w = (None, w') \<Longrightarrow>
     \<exists>b. node_at (fs w) (raw_file_path d) = Some (File b) \<and> H b = hash d \<and>
         w' = emit (DigestChecked (raw_file_path d) True) w"
  by (auto simp: check_hash_def Let_def split: option.splits node.splits if_splits)

lemma check_hash_mismatch:
  "node_at (fs w) (raw_file_path d) = Some (File b) \<Longrightarrow> H b \<noteq> hash d \<Longrightarrow>
   check_hash H (Some g) d w =
     (Some (SystemExit 1),
      py_print (hash_diagnostic (url g)) (emit (DigestChecked (raw_file_path d) False) w))"
  by (simp add: check_hash_def Let_def)

lemma download_file_None:
  "download_file H g d w = (None, w') \<Longrightarrow> \<exists>w2. check_hash H g d w2 = (None, w')"
  by (auto simp: download_file_def Let_def split: sum.splits option.splits if_splits)

lemma node_at_File: "node_at f p = Some (File b) \<Longrightarrow> f p = Some (File b)"
  by (simp add: node_at_def split: if_splits)

lemma verify_downloaded_fresh:
  assumes v: "verify_downloaded H (Some d) d w = (None, w1)"
    and a: "\<not> path_exists (fs w) (raw_file_path d)"
  shows "(\<exists>b. fs w1 (raw_file_path d) = Some (File b) \<and> H b = hash d) \<and>
         (\<exists>es. trace w1 = es @ [DigestChecked (raw_file_path d) True])"
proof -
  from v a have "download_file H (Some d) d (py_print (missing_notice (name d)) w) = (None, w1)"
    by (simp add: verify_downloaded_def)
  then obtain w2 where "check_hash H (Some d) d w2 = (None, w1)"
    using download_file_None by blast
  then obtain b where b: "node_at (fs w2) (raw_file_path d) = Some (File b)" "H b = hash d"
      "w1 = emit (DigestChecked (raw_file_path d) True) w2"
    using check_hash_None by blast
  have "fs w1 (raw_file_path d) = Some (File b)"
    using node_at_File [OF b(1)] b(3) by simp
  moreover have "trace w1 = trace w2 @ [DigestChecked (raw_file_path d) True]"
    using b(3) by simp
  ultimately show ?thesis using b(2) by blast
qed

lemma verify_downloaded_present:
  "path_exists (fs w) (raw_file_path g) \<Longrightarrow> verify_downloaded H (Some g) d w = (None, w)"
  by (simp add: verify_downloaded_def)

lemma absent_nonroot: "\<not> path_exists f p \<Longrightarrow> p \<noteq> [] \<and> f p = None \<and> node_at f p = None"
  by (auto simp: path_exists_def node_at_def split: if_splits)

lemma prefix_parent: "prefix q (parent p) \<Longrightarrow> prefix q p"
  unfolding parent_def by (metis prefix_order.trans prefixeq_butlast)

lemma mkdir_parents_absent:
  assumes "\<not> path_exists f p" "mkdir_parents (parent p) f = Inr f1"
  shows "node_at f1 p = None" "node_at f1 (parent p) = Some Dir"
proof -
  from assms(1) have p: "p \<noteq> []" "f p = None" using absent_nonroot by auto
  then have "\<not> prefix p (parent p)" using parent_prefix by simp
  then have "f1 p = f p" using mkdir_parents_frame [OF assms(2)] by simp
  with p show "node_at f1 p = None" by (simp add: node_at_def)
  show "node_at f1 (parent p) = Some Dir" using mkdir_parents_target [OF assms(2)] .
qed

lemma download_file_fresh:
  assumes a: "\<not> path_exists (fs w) (raw_file_path d)"
    and m: "mkdir_parents (parent (raw_file_path d)) (fs w) = Inr f1"
    and n: "net w (url d) = Some r"
    and h: "headers r ''Content-Length'' = Some v"
    and i: "builtin_int w v = Some k"
    and q: "tqdm_new w k (last_segment (url d)) = None"
    and nb: "\<not> broken r"
  shows "download_file H g d w = check_hash H g d (downloaded d r f1 w)"
proof -
  have "open_wb (raw_file_path d) f1 = Inr (f1(raw_file_path d \<mapsto> File []))"
    using mkdir_parents_absent [OF a m] by (rule open_wb_fresh)
  then show ?thesis
    using m n h i q nb by (simp add: download_file_def downloaded_def Let_def)
qed

lemma downloaded_raw:
  "raw_file_path d \<noteq> [] \<Longrightarrow>
   node_at (fs (downloaded d r f1 w)) (raw_file_path d) = Some (File (concat (chunks r)))"
  by (simp add: downloaded_def node_at_def write_chunks_file)

lemma downloaded_other:
  "q \<noteq> raw_file_path d \<Longrightarrow> fs (downloaded d r f1 w) q = f1 q"
  by (simp add: downloaded_def write_chunks_other)

lemma downloaded_trace:
  "trace (downloaded d r f1 w) = trace w @ [HttpGet (url d), FileWrite (raw_file_path d)]"
  by (simp add: downloaded_def)

lemma process_mismatch:
  assumes a: "\<not> path_exists (fs w) (raw_file_path d)"
    and m: "mkdir_parents (parent (raw_file_path d)) (fs w) = Inr f1"
    and n: "net w (url d) = Some r"
    and h: "headers r ''Content-Length'' = Some v"
    and i: "builtin_int w v = Some k"
    and q: "tqdm_new w k (last_segment (url d)) = None"
    and nb: "\<not> broken r"
    and x: "H (concat (chunks r)) \<noteq> hash d"
  shows "process H (Some d) d w =
    (Some (SystemExit 1),
     py_print (hash_diagnostic (url d)) (emit (DigestChecked (raw_file_path d) False)
       (downloaded d r f1 (py_print (missing_notice (name d)) w))))"
proof -
  let ?w0 = "py_print (missing_notice (name d)) w"
  have a': "\<not> path_exists (fs ?w0) (raw_file_path d)" using a by simp
  have m': "mkdir_parents (parent (raw_file_path d)) (fs ?w0) = Inr f1" using m by simp
  have n': "net ?w0 (url d) = Some r" using n by simp
  have i': "builtin_int ?w0 v = Some k" using i by simp
  have q': "tqdm_new ?w0 k (last_segment (url d)) = None" using q by simp
  have d: "download_file H (Some d) d ?w0 = check_hash H (Some d) d (downloaded d r f1 ?w0)"
    using download_file_fresh [OF a' m' n' h i' q' nb] .
  have nr: "raw_file_path d \<noteq> []" using absent_nonroot [OF a] by simp
  have "check_hash H (Some d) d (downloaded d r f1 ?w0) =
    (Some (SystemExit 1),
     py_print (hash_diagnostic (url d)) (emit (DigestChecked (raw_file_path d) False)
       (downloaded d r f1 ?w0)))"
    using downloaded_raw [OF nr, of r f1 ?w0] x by (rule check_hash_mismatch)
  with d a show ?thesis by (simp add: process_def verify_downloaded_def)
qed

subsection \<open>The integrity check\<close>

text \<open>
  C5. The integrity check is reflexive and rejects every differing digest: a file matches
  its own digest; whenever the digest computed from the bytes of the file differs from the
  expected value, \<open>matches\<close> is false; and \<open>check_hash\<close> returns normally exactly when the
  raw file matches the expected digest of the record (it returns at once when the expected
  digest is the file's own, and ends in an exception when the two differ).
\<close>

theorem check_hash_matches_digest:
  "(node_at f p = Some (File b) \<longrightarrow> digest_of sha256 f p = Some (sha256 b) \<and> matches sha256 f p (sha256 b)) \<and>
   (node_at f p = Some (File b) \<and> sha256 b \<noteq> expected \<longrightarrow> \<not> matches sha256 f p expected) \<and>
   ((fst (check_hash sha256 glob self w) = None) =
      matches sha256 (fs w) (raw_file_path self) (hash self)) \<and>
   (node_at (fs w) (raw_file_path self) = Some (File b) \<and> hash self = sha256 b \<longrightarrow>
      check_hash sha256 glob self w = (None, emit (DigestChecked (raw_file_path self) True) w)) \<and>
   (node_at (fs w) (raw_file_path self) = Some (File b) \<and> sha256 b \<noteq> hash self \<longrightarrow>
      fst (check_hash sha256 glob self w) \<in> {Some (SystemExit 1), Some NameError})"
proof (intro conjI impI)
  show "(fst (check_hash sha256 glob self w) = None) =
      matches sha256 (fs w) (raw_file_path self) (hash self)"
    by (auto simp: check_hash_def matches_def digest_of_def Let_def
        split: option.splits node.splits)
next
  assume "node_at (fs w) (raw_file_path self) = Some (File b) \<and> sha256 b \<noteq> hash self"
  then show "fst (check_hash sha256 glob self w) \<in> {Some (SystemExit 1), Some NameError}"
    by (cases glob) (simp_all add: check_hash_def Let_def)
qed (simp_all add: matches_def digest_of_def check_hash_def Let_def)

theorem check_hash_matches_digest_witness:
  "node_at (fs stale_world) happiness_raw = Some (File [9]) \<and>
   matches toy_sha256 (fs stale_world) happiness_raw (toy_sha256 [9]) \<and>
   toy_sha256 [9] \<noteq> happiness_hash \<and>
   \<not> matches toy_sha256 (fs stale_world) happiness_raw happiness_hash \<and>
   fst (check_hash toy_sha256 (Some happiness) happiness stale_world) = Some (SystemExit 1) \<and>
   check_hash toy_sha256 (Some happiness) (happiness\<lparr>hash := toy_sha256 [9]\<rparr>) stale_world =
     (None, emit (DigestChecked happiness_raw True) stale_world)"
  using check_hash_matches_digest [of "fs stale_world" happiness_raw "[9]" toy_sha256
      happiness_hash "Some happiness" happiness stale_world]
    check_hash_matches_digest [of "fs stale_world" happiness_raw "[9]" toy_sha256
      happiness_hash "Some happiness" "happiness\<lparr>hash := toy_sha256 [9]\<rparr>" stale_world]
  by (simp add: stale_world_def happiness_def happiness_raw_def happiness_hash_def
      toy_sha256_def node_at_def check_hash_def Let_def)

subsection \<open>Evaluating the model on the examples\<close>

lemmas ex_defs = happiness_def happiness_raw_def happiness_clean_def happiness_hash_def
  happiness_url_def toy_sha256_def good_response_def bad_response_def bare_response_def
  serving_def empty_world_def stale_world_def copy_processing_def
  banknote_def banknote_raw_def banknote_url_def mixed_world_def

lemmas run_defs = process_def verify_downloaded_def download_file_def check_hash_def
  mkdir_parents_def open_wb_def parent_def node_at_def path_exists_def append_file_def
  sample_int_def quiet_tqdm_def last_segment_def
  emit_def py_print_def Let_def new_events_def is_request_def

subsection \<open>Skipping the download\<close>









subsection \<open>A response without Content-Length\<close>

lemma download_file_no_length:
  assumes "mkdir_parents (parent (raw_file_path d)) (fs w) = Inr f1"
    and "net w (url d) = Some r" and "headers r ''Content-Length'' = None"
  shows "download_file H g d w = (Some TypeError, emit (HttpGet (url d)) (w\<lparr>fs := f1\<rparr>))"
  using assms by (simp add: download_file_def Let_def)

lemma download_file_mkdir_fails:
  "mkdir_parents (parent (raw_file_path d)) (fs w) = Inl e \<Longrightarrow>
   download_file H g d w = (Some e, w)"
  by (simp add: download_file_def)

lemma process_verify_error:
  "verify_downloaded H g d w = (Some e, w1) \<Longrightarrow> process H g d w = (Some e, w1)"
  by (simp add: process_def)

text \<open>
  C9. A response without a \<open>Content-Length\<close> header is fatal. When the raw file is absent
  and the server answers without that header, \<open>process()\<close> ends in an exception (the
  \<open>TypeError\<close> of \<open>int(None)\<close> whenever the parent directories could be created), the raw
  path still does not exist afterwards, and nothing happened but the notice and the
  request: the file was never opened and the processing function never called.
\<close>

theorem missing_content_length_aborts:
  assumes a: "\<not> path_exists (fs w) (raw_file_path d)"
    and n: "net w (url d) = Some r"
    and h: "headers r ''Content-Length'' = None"
  shows "fst (process sha256 (Some d) d w) \<noteq> None \<and>
         (\<forall>f1. mkdir_parents (parent (raw_file_path d)) (fs w) = Inr f1 \<longrightarrow>
            fst (process sha256 (Some d) d w) = Some TypeError) \<and>
         \<not> path_exists (fs (snd (process sha256 (Some d) d w))) (raw_file_path d) \<and>
         set (new_events w (snd (process sha256 (Some d) d w))) \<subseteq>
           {Print (missing_notice (name d)), HttpGet (url d)}"
proof -
  let ?w0 = "py_print (missing_notice (name d)) w"
  have v: "verify_downloaded sha256 (Some d) d w = download_file sha256 (Some d) d ?w0"
    using a by (simp add: verify_downloaded_def)
  show ?thesis
  proof (cases "mkdir_parents (parent (raw_file_path d)) (fs w)")
    case (Inl e)
    then have "download_file sha256 (Some d) d ?w0 = (Some e, ?w0)"
      by (simp add: download_file_mkdir_fails)
    with v have "process sha256 (Some d) d w = (Some e, ?w0)"
      by (simp add: process_verify_error)
    with a Inl show ?thesis by (simp add: new_events_def)
  next
    case (Inr f1)
    then have "download_file sha256 (Some d) d ?w0 =
        (Some TypeError, emit (HttpGet (url d)) (?w0\<lparr>fs := f1\<rparr>))"
      using n h by (simp add: download_file_no_length)
    with v have p: "process sha256 (Some d) d w =
        (Some TypeError, emit (HttpGet (url d)) (?w0\<lparr>fs := f1\<rparr>))"
      by (simp add: process_verify_error)
    have "node_at f1 (raw_file_path d) = None"
      using mkdir_parents_absent(1) [OF a Inr] .
    with p Inr show ?thesis by (simp add: new_events_def path_exists_def)
  qed
qed

theorem missing_content_length_aborts_witness:
  "\<not> path_exists (fs (empty_world bare_response)) (raw_file_path happiness) \<and>
   net (empty_world bare_response) (url happiness) = Some bare_response \<and>
   headers bare_response ''Content-Length'' = None \<and>
   fst (process toy_sha256 (Some happiness) happiness (empty_world bare_response)) = Some TypeError \<and>
   \<not> path_exists (fs (snd (process toy_sha256 (Some happiness) happiness
        (empty_world bare_response)))) (raw_file_path happiness)"
  using missing_content_length_aborts [of "empty_world bare_response" happiness bare_response
      toy_sha256]
  by (simp add: ex_defs run_defs)

subsection \<open>The global variable in the methods\<close>




subsection \<open>Digest verification before the transformation\<close>

text \<open>
  C1, as stated, fails. The raw file of \<open>happiness\<close> is on disk with bytes whose digest is
  not the expected one; \<open>process()\<close> computes no digest, calls the processing function and
  the clean file is written: the only event of the run is the transformation.
\<close>
theorem stale_raw_transformed_unchecked:
  "fs stale_world happiness_raw = Some (File [9]) \<and>
   toy_sha256 [9] \<noteq> hash happiness \<and>
   fs stale_world happiness_clean = None \<and>
   fst (process toy_sha256 (Some happiness) happiness stale_world) = None \<and>
   fs (snd (process toy_sha256 (Some happiness) happiness stale_world)) happiness_clean =
     Some (File [9]) \<and>
   trace (snd (process toy_sha256 (Some happiness) happiness stale_world)) =
     [Transform happiness_raw happiness_clean]"
  by (simp add: ex_defs run_defs)

text \<open>
  C1, amended. In an execution of \<open>process()\<close> that downloads the raw file (it was absent),
  the processing function is called only after the digest of the raw file was computed and
  found equal to the expected digest: the world handed to it holds a raw file with the
  expected digest and its last event is the successful check. When \<open>verify_downloaded\<close>
  ends in an exception the processing function is not called. When the raw file was
  already present, the processing function is called on the unchanged world, without any
  digest check.
\<close>
theorem transform_after_digest_when_downloaded:
  "(verify_downloaded sha256 (Some d) d w = (Some e, w1) \<longrightarrow>
      process sha256 (Some d) d w = (Some e, w1)) \<and>
   (verify_downloaded sha256 (Some d) d w = (None, w1) \<longrightarrow>
      process sha256 (Some d) d w =
        processing_function d (raw_file_path d) (clean_file_path d)
          (emit (Transform (raw_file_path d) (clean_file_path d)) w1) \<and>
      (if path_exists (fs w) (raw_file_path d) then w1 = w
       else (\<exists>b. fs w1 (raw_file_path d) = Some (File b) \<and> sha256 b = hash d) \<and>
            (\<exists>es. trace w1 = es @ [DigestChecked (raw_file_path d) True])))"
proof (intro conjI impI)
  assume "verify_downloaded sha256 (Some d) d w = (Some e, w1)"
  then show "process sha256 (Some d) d w = (Some e, w1)" by (rule process_verify_error)
next
  assume v: "verify_downloaded sha256 (Some d) d w = (None, w1)"
  then show "process sha256 (Some d) d w =
        processing_function d (raw_file_path d) (clean_file_path d)
          (emit (Transform (raw_file_path d) (clean_file_path d)) w1)"
    by (simp add: process_def)
  show "if path_exists (fs w) (raw_file_path d) then w1 = w
       else (\<exists>b. fs w1 (raw_file_path d) = Some (File b) \<and> sha256 b = hash d) \<and>
            (\<exists>es. trace w1 = es @ [DigestChecked (raw_file_path d) True])"
  proof (cases "path_exists (fs w) (raw_file_path d)")
    case True
    with v verify_downloaded_present [OF True, of sha256 d] show ?thesis by simp
  next
    case False
    with verify_downloaded_fresh [OF v False] show ?thesis by simp
  qed
qed

theorem transform_after_digest_when_downloaded_witness:
  "\<not> path_exists (fs (empty_world good_response)) (raw_file_path happiness) \<and>
   fst (verify_downloaded toy_sha256 (Some happiness) happiness (empty_world good_response)) = None \<and>
   (\<exists>b. fs (snd (verify_downloaded toy_sha256 (Some happiness) happiness
           (empty_world good_response))) (raw_file_path happiness) = Some (File b) \<and>
        toy_sha256 b = hash happiness) \<and>
   fst (process toy_sha256 (Some happiness) happiness (empty_world good_response)) = None \<and>
   fst (verify_downloaded toy_sha256 (Some happiness) happiness (empty_world bad_response)) =
     Some (SystemExit 1) \<and>
   fst (process toy_sha256 (Some happiness) happiness (empty_world bad_response)) =
     Some (SystemExit 1)"
proof -
  let ?v = "verify_downloaded toy_sha256 (Some happiness) happiness (empty_world good_response)"
  let ?u = "verify_downloaded toy_sha256 (Some happiness) happiness (empty_world bad_response)"
  have a: "\<not> path_exists (fs (empty_world good_response)) (raw_file_path happiness)"
    by (simp add: ex_defs run_defs)
  have f: "fst ?v = None" by (simp add: ex_defs run_defs)
  then have v: "?v = (None, snd ?v)" by (metis prod.collapse)
  have g: "fst ?u = Some (SystemExit 1)" by (simp add: ex_defs run_defs)
  then have u: "?u = (Some (SystemExit 1), snd ?u)" by (metis prod.collapse)
  have p: "fst (process toy_sha256 (Some happiness) happiness (empty_world good_response)) = None"
    by (simp add: ex_defs run_defs)
  have t1: "\<exists>b. fs (snd ?v) (raw_file_path happiness) = Some (File b) \<and> toy_sha256 b = hash happiness"
    using transform_after_digest_when_downloaded [of toy_sha256 happiness
        "empty_world good_response" "SystemExit 1" "snd ?v", THEN conjunct2, THEN mp, OF v] a
    by (simp del: split_paired_Ex)
  have "process toy_sha256 (Some happiness) happiness (empty_world bad_response) =
      (Some (SystemExit 1), snd ?u)"
    using transform_after_digest_when_downloaded [of toy_sha256 happiness
        "empty_world bad_response" "SystemExit 1" "snd ?u", THEN conjunct1, THEN mp, OF u] .
  then have t2: "fst (process toy_sha256 (Some happiness) happiness (empty_world bad_response)) =
     Some (SystemExit 1)" by (rule arg_cong [where f = fst, THEN trans]) simp
  show ?thesis using a f g p t1 t2 by blast
qed

subsection \<open>A download that fails verification\<close>

text \<open>
  C2, as stated, fails on two points. After a download whose digest mismatches, the run
  ends with \<open>SystemExit 1\<close> and the clean file is not written, but the state is not
  unchanged: the raw file now holds the mismatching bytes. And the diagnostic printed by
  \<open>check_hash\<close> names the source URL only; the name of the dataset is in the earlier notice.
\<close>
theorem mismatch_leaves_raw_file:
  "fs (empty_world bad_response) happiness_raw = None \<and>
   fst (process toy_sha256 (Some happiness) happiness (empty_world bad_response)) =
     Some (SystemExit 1) \<and>
   fs (snd (process toy_sha256 (Some happiness) happiness (empty_world bad_response)))
     happiness_raw = Some (File [1, 2, 7]) \<and>
   trace (snd (process toy_sha256 (Some happiness) happiness (empty_world bad_response))) =
     [Print (missing_notice ''happiness''), HttpGet happiness_url, FileWrite happiness_raw,
      DigestChecked happiness_raw False, Print (hash_diagnostic happiness_url)] \<and>
   \<not> contains_str ''happiness'' (hash_diagnostic happiness_url)"
  by (simp add: ex_defs run_defs hash_diagnostic_def)

text \<open>
  C2, amended. For the record the main loop is processing: if after a fresh download (raw
  file absent, directories created, a response whose \<open>Content-Length\<close> the builtin \<open>int\<close>
  accepts, progress bar constructed, stream complete) the digest of the downloaded bytes
  differs from the expected digest, \<open>process()\<close> ends with \<open>SystemExit 1\<close>; what it did is,
  in order: the notice naming the dataset, the request, the write of the raw file, the
  failed digest check, the diagnostic naming the source URL. The processing function is not
  called and the clean path, provided it is neither the raw path nor one of its ancestor
  directories, is left as it was, while the raw file keeps the downloaded bytes.
\<close>
theorem digest_mismatch_exits:
  assumes a: "\<not> path_exists (fs w) (raw_file_path d)"
    and m: "mkdir_parents (parent (raw_file_path d)) (fs w) = Inr f1"
    and n: "net w (url d) = Some r"
    and h: "headers r ''Content-Length'' = Some v"
    and i: "builtin_int w v = Some k"
    and q: "tqdm_new w k (last_segment (url d)) = None"
    and nb: "\<not> broken r"
    and x: "sha256 (concat (chunks r)) \<noteq> hash d"
    and c: "\<not> prefix (clean_file_path d) (raw_file_path d)"
  shows "fst (process sha256 (Some d) d w) = Some (SystemExit 1) \<and>
         new_events w (snd (process sha256 (Some d) d w)) =
           [Print (missing_notice (name d)), HttpGet (url d), FileWrite (raw_file_path d),
            DigestChecked (raw_file_path d) False, Print (hash_diagnostic (url d))] \<and>
         contains_str (name d) (missing_notice (name d)) \<and>
         contains_str (url d) (hash_diagnostic (url d)) \<and>
         fs (snd (process sha256 (Some d) d w)) (clean_file_path d) = fs w (clean_file_path d) \<and>
         fs (snd (process sha256 (Some d) d w)) (raw_file_path d) =
           Some (File (concat (chunks r)))"
proof -
  let ?w0 = "py_print (missing_notice (name d)) w"
  let ?w1 = "downloaded d r f1 ?w0"
  have p: "process sha256 (Some d) d w =
      (Some (SystemExit 1),
       py_print (hash_diagnostic (url d)) (emit (DigestChecked (raw_file_path d) False) ?w1))"
    using process_mismatch [where H = sha256, OF a m n h i q nb x] .
  have nr: "raw_file_path d \<noteq> []" using absent_nonroot [OF a] by simp
  have ne: "clean_file_path d \<noteq> raw_file_path d" using c by auto
  have np: "\<not> prefix (clean_file_path d) (parent (raw_file_path d))"
    using c prefix_parent by blast
  have cl: "fs ?w1 (clean_file_path d) = fs w (clean_file_path d)"
    using downloaded_other [OF ne, of r f1 ?w0] mkdir_parents_frame [OF m np] by simp
  have rw: "fs ?w1 (raw_file_path d) = Some (File (concat (chunks r)))"
    using downloaded_raw [OF nr, of r f1 ?w0] by (rule node_at_File)
  have tr: "trace ?w1 = trace w @ [Print (missing_notice (name d)), HttpGet (url d),
      FileWrite (raw_file_path d)]"
    by (simp add: downloaded_trace)
  have n1: "contains_str (name d) (missing_notice (name d))"
    unfolding missing_notice_def by (rule contains_str_append)
  have n2: "contains_str (url d) (hash_diagnostic (url d))"
    unfolding hash_diagnostic_def append_assoc by (rule contains_str_append)
  show ?thesis using p cl rw tr n1 n2 by (simp add: new_events_def)
qed

theorem digest_mismatch_exits_witness:
  "\<not> path_exists (fs (empty_world bad_response)) (raw_file_path happiness) \<and>
   toy_sha256 (concat (chunks bad_response)) \<noteq> hash happiness \<and>
   \<not> prefix (clean_file_path happiness) (raw_file_path happiness) \<and>
   fst (process toy_sha256 (Some happiness) happiness (empty_world bad_response)) =
     Some (SystemExit 1) \<and>
   fs (snd (process toy_sha256 (Some happiness) happiness (empty_world bad_response)))
     (clean_file_path happiness) = None \<and>
   fs (snd (process toy_sha256 (Some happiness) happiness (empty_world bad_response)))
     (raw_file_path happiness) = Some (File [1, 2, 7])"
proof -
  have a: "\<not> path_exists (fs (empty_world bad_response)) (raw_file_path happiness)"
    by (simp add: ex_defs run_defs)
  have m: "mkdir_parents (parent (raw_file_path happiness)) (fs (empty_world bad_response)) =
      Inr [[''data''] \<mapsto> Dir, [''data'', ''happiness''] \<mapsto> Dir,
           [''data'', ''happiness'', ''raw''] \<mapsto> Dir]"
    by (simp add: ex_defs run_defs)
  have n: "net (empty_world bad_response) (url happiness) = Some bad_response"
    by (simp add: ex_defs)
  have h: "headers bad_response ''Content-Length'' = Some ''3''" by (simp add: ex_defs)
  have i: "builtin_int (empty_world bad_response) ''3'' = Some 3"
    by (simp add: empty_world_def sample_int_def)
  have q: "tqdm_new (empty_world bad_response) 3 (last_segment (url happiness)) = None"
    by (simp add: empty_world_def quiet_tqdm_def)
  have nb: "\<not> broken bad_response" by (simp add: ex_defs)
  have x: "toy_sha256 (concat (chunks bad_response)) \<noteq> hash happiness"
    by (simp add: ex_defs)
  have c: "\<not> prefix (clean_file_path happiness) (raw_file_path happiness)"
    by (simp add: ex_defs)
  have e: "fs (empty_world bad_response) (clean_file_path happiness) = None"
    by (simp add: ex_defs)
  have k: "concat (chunks bad_response) = [1, 2, 7]" by (simp add: ex_defs)
  from digest_mismatch_exits [where ?sha256.0 = toy_sha256, OF a m n h i q nb x c] a x c e k
  show ?thesis by simp
qed

section \<open>Properties of the banknote routine\<close>

lemmas table_defs = process_banknote_def read_csv_def rectangular_def banknote_columns_def
  set_columns_def column_def drop_columns_def get_dummies_def fit_transform_def
  scale_column_def data_frame_def set_column_def Let_def upt_rec

text \<open>
  On a file of at least two records of five numbers the routine returns a table, and the
  table is built from the records after the first: the first record went into the column
  labels, which the code then overwrites.
\<close>

lemma process_banknote_table:
  assumes r: "rectangular (header # rest)" and h: "length header = 5" and n: "rest \<noteq> []"
  shows "process_banknote (header # rest) =
     Some (Inr \<lparr>nrows = length rest,
          cols = [(Name ''variance'', scale_column (map (\<lambda>r. r ! 0) rest)),
                  (Name ''skewness'', scale_column (map (\<lambda>r. r ! 1) rest)),
                  (Name ''curtosis'', scale_column (map (\<lambda>r. r ! 2) rest)),
                  (Name ''entropy'', scale_column (map (\<lambda>r. r ! 3) rest)),
                  (Name ''y'', map (\<lambda>r. if r ! 4 = 1 then 1 else 0) rest)]\<rparr>)"
proof -
  have u: "[0..<5] = [0, 1, 2, 3, 4::nat]"
    by (simp add: upt_rec)
  show ?thesis
    using r n
    by (simp add: process_banknote_def read_csv_def banknote_columns_def set_columns_def
                  column_def drop_columns_def get_dummies_def fit_transform_def data_frame_def
                  set_column_def Let_def h u comp_def)
qed

text \<open>
  Whenever the routine returns a table, the table has one row fewer than the file has
  records.
\<close>

lemma process_banknote_rows:
  assumes "process_banknote records = Some (Inr t)"
  shows "Suc (nrows t) = length records"
  using assms
  by (auto simp: process_banknote_def read_csv_def set_columns_def column_def drop_columns_def
      get_dummies_def fit_transform_def data_frame_def set_column_def Let_def
      split: if_splits list.splits sum.splits option.splits)

text \<open>
  C7 (row count of the clean table equals the number of records of the raw file). The
  banknote routine breaks it: on a raw file of two records it returns a table of one row,
  made from the second record alone. \<open>pd.read_csv(input_file, index_col=None)\<close> infers a header,
  so the first record is read as column labels, and \<open>df.columns = [...]\<close> then discards them.
  \<open>process_abalone\<close> and \<open>process_wbc\<close> read their headerless files with \<open>header=None\<close>.
\<close>

theorem banknote_first_record_lost:
  "length two_notes = 2 \<and>
   process_banknote two_notes =
     Some (Inr \<lparr>nrows = 1,
          cols = [(Name ''variance'', [0]), (Name ''skewness'', [0]),
                  (Name ''curtosis'', [0]), (Name ''entropy'', [0]), (Name ''y'', [0])]\<rparr>)"
  by (simp add: two_notes_def table_defs)

text \<open>
  C8 (the \<open>y\<close> column of the banknote table is 1 exactly at the rows whose raw class is 1). On
  a raw file of three records with classes 1, 0, 1 the routine returns the labels 0, 1 of the
  second and third record: the first record, of class 1, has no row and no label in the
  table. The four feature columns of the two remaining rows are scaled to 0 and 1.
\<close>

theorem banknote_first_label_lost:
  "map last three_notes = [1, 0, 1] \<and>
   process_banknote three_notes =
     Some (Inr \<lparr>nrows = 2,
          cols = [(Name ''variance'', [0, 1]), (Name ''skewness'', [1, 0]),
                  (Name ''curtosis'', [1, 0]), (Name ''entropy'', [1, 0]),
                  (Name ''y'', [0, 1])]\<rparr>)"
  by (simp add: three_notes_def table_defs)

end
